theory Spec2Isabelle
  imports Complex_Main
begin

section \<open>JavaScript numbers\<close>

text \<open>
  The scoring engine of \<^verbatim>\<open>HeartRateService\<close> computes with JavaScript numbers.
  A number is modelled as a finite value, one of the two infinities, or NaN, so that a
  division by zero is a value of the model as it is a value of the program.
  Finite values are exact rationals: the rounding error of double arithmetic is left out,
  and negative zero is identified with zero.
  Heart rates and the maximum heart rate are integers, as the callers produce them
  (\<^verbatim>\<open>parseInt\<close> in the screens, \<^verbatim>\<open>Math.round\<close> in \<^verbatim>\<open>addManualReading\<close>).
\<close>

datatype jsnum = Fin rat | PInf | NInf | NaN

instantiation jsnum :: "{plus, times, inverse}"
begin

fun plus_jsnum :: "jsnum \<Rightarrow> jsnum \<Rightarrow> jsnum" where
  "plus_jsnum NaN y = NaN"
| "plus_jsnum x NaN = NaN"
| "plus_jsnum (Fin x) (Fin y) = Fin (x + y)"
| "plus_jsnum PInf NInf = NaN"
| "plus_jsnum NInf PInf = NaN"
| "plus_jsnum PInf y = PInf"
| "plus_jsnum x PInf = PInf"
| "plus_jsnum NInf y = NInf"
| "plus_jsnum x NInf = NInf"

fun times_jsnum :: "jsnum \<Rightarrow> jsnum \<Rightarrow> jsnum" where
  "times_jsnum NaN y = NaN"
| "times_jsnum x NaN = NaN"
| "times_jsnum (Fin x) (Fin y) = Fin (x * y)"
| "times_jsnum (Fin x) PInf = (if x = 0 then NaN else if 0 < x then PInf else NInf)"
| "times_jsnum (Fin x) NInf = (if x = 0 then NaN else if 0 < x then NInf else PInf)"
| "times_jsnum PInf (Fin y) = (if y = 0 then NaN else if 0 < y then PInf else NInf)"
| "times_jsnum NInf (Fin y) = (if y = 0 then NaN else if 0 < y then NInf else PInf)"
| "times_jsnum PInf PInf = PInf"
| "times_jsnum PInf NInf = NInf"
| "times_jsnum NInf PInf = NInf"
| "times_jsnum NInf NInf = PInf"

fun divide_jsnum :: "jsnum \<Rightarrow> jsnum \<Rightarrow> jsnum" where
  "divide_jsnum NaN y = NaN"
| "divide_jsnum x NaN = NaN"
| "divide_jsnum (Fin x) (Fin y) =
     (if y = 0 then (if x = 0 then NaN else if 0 < x then PInf else NInf)
      else Fin (x / y))"
| "divide_jsnum (Fin x) PInf = Fin 0"
| "divide_jsnum (Fin x) NInf = Fin 0"
| "divide_jsnum PInf (Fin y) = (if 0 \<le> y then PInf else NInf)"
| "divide_jsnum NInf (Fin y) = (if 0 \<le> y then NInf else PInf)"
| "divide_jsnum PInf y = NaN"
| "divide_jsnum NInf y = NaN"

definition inverse_jsnum :: "jsnum \<Rightarrow> jsnum" where
  "inverse_jsnum x = divide (Fin 1) (x :: jsnum)"

instance ..

end

text \<open>An integer as a number.\<close>

definition num :: "int \<Rightarrow> jsnum" where
  "num i = Fin (of_int i)"

text \<open>A length or a counter as a number.\<close>

definition numn :: "nat \<Rightarrow> jsnum" where
  "numn n = Fin (of_nat n)"

text \<open>An optional field read in arithmetic: \<^verbatim>\<open>undefined\<close> becomes NaN.\<close>

fun optnum :: "jsnum option \<Rightarrow> jsnum" where
  "optnum None = NaN"
| "optnum (Some x) = x"

text \<open>\<^verbatim>\<open>a >= b\<close>: false as soon as one side is NaN.\<close>

fun jge :: "jsnum \<Rightarrow> jsnum \<Rightarrow> bool" where
  "jge NaN y = False"
| "jge x NaN = False"
| "jge (Fin x) (Fin y) = (y \<le> x)"
| "jge PInf y = True"
| "jge x NInf = True"
| "jge NInf y = False"
| "jge x PInf = False"

text \<open>
  \<^verbatim>\<open>Math.round\<close> rounds to the nearest integer, a half towards positive infinity;
  the infinities and NaN are returned as they are.
\<close>

definition jsround :: "rat \<Rightarrow> int" where
  "jsround x = \<lfloor>x + 1 / 2\<rfloor>"

fun Math_round :: "jsnum \<Rightarrow> jsnum" where
  "Math_round (Fin x) = num (jsround x)"
| "Math_round x = x"

text \<open>
  \<^verbatim>\<open>Math.max(...xs)\<close>: NaN if an argument is NaN, the negative infinity for no
  argument.
\<close>

fun jmax :: "jsnum \<Rightarrow> jsnum \<Rightarrow> jsnum" where
  "jmax NaN y = NaN"
| "jmax x NaN = NaN"
| "jmax x y = (if jge x y then x else y)"

definition Math_max :: "jsnum list \<Rightarrow> jsnum" where
  "Math_max xs = foldl jmax NInf xs"

text \<open>\<^verbatim>\<open>Math.min(a, b)\<close>.\<close>

fun jmin :: "jsnum \<Rightarrow> jsnum \<Rightarrow> jsnum" where
  "jmin NaN y = NaN"
| "jmin x NaN = NaN"
| "jmin x y = (if jge y x then x else y)"

text \<open>
  \<^verbatim>\<open>Math.round(Math.sqrt(v))\<close> for a finite \<open>v \<ge> 0\<close>, computed on integers:
  \<open>floor_sqrt n\<close> is the largest \<open>s\<close> with \<open>s\<^sup>2 \<le> n\<close>, found digit by digit in
  base 2, and the rounded root is the number of odd numbers \<open>2 k - 1\<close> with
  \<open>(2 k - 1)\<^sup>2 \<le> 4 v\<close>.
\<close>

function floor_sqrt :: "int \<Rightarrow> int" where
  "floor_sqrt n =
     (if n \<le> 0 then 0
      else let r = 2 * floor_sqrt (n div 4)
           in if (r + 1) * (r + 1) \<le> n then r + 1 else r)"
  by pat_completeness auto
termination
  by (relation "measure nat") auto

declare floor_sqrt.simps [simp del]

definition round_sqrt :: "rat \<Rightarrow> int" where
  "round_sqrt v = (floor_sqrt \<lfloor>4 * v\<rfloor> + 1) div 2"

section \<open>The data model\<close>

record HeartRateData =
  heartRate :: "int option"
  timestamp :: int

datatype WorkoutType =
  Weightlifting | Cardio | HIIT | CrossFit | Running | Cycling | Yoga | Other

datatype Quality = Excellent | Good | Fair | Poor

record Band =
  bmin :: int
  bmax :: int

record Zones =
  recovery :: Band
  fatBurn :: Band
  aerobic :: Band
  anaerobic :: Band
  maxZone :: Band

record EffortReading =
  zone :: string
  intensity :: jsnum
  description :: string

record WorkoutSpecific =
  hrVariability :: "int option"
  peakSpikes :: "nat option"
  recoveryEfficiency :: "jsnum option"
  sustainedAerobic :: "jsnum option"
  zoneTransitions :: "nat option"

record WorkoutQuality =
  averageIntensity :: jsnum
  maxIntensity :: jsnum
  timeInZones :: "(string \<times> jsnum) list"
  quality :: Quality
  score :: jsnum
  workoutSpecific :: "WorkoutSpecific option"

section \<open>Zones and the effort level of one reading\<close>

definition calculateHeartRateZones :: "int \<Rightarrow> Zones" where
  "calculateHeartRateZones maxHeartRate =
     \<lparr>recovery = \<lparr>bmin = 0, bmax = jsround (of_int maxHeartRate * 0.5)\<rparr>,
      fatBurn = \<lparr>bmin = jsround (of_int maxHeartRate * 0.5),
                 bmax = jsround (of_int maxHeartRate * 0.6)\<rparr>,
      aerobic = \<lparr>bmin = jsround (of_int maxHeartRate * 0.6),
                 bmax = jsround (of_int maxHeartRate * 0.7)\<rparr>,
      anaerobic = \<lparr>bmin = jsround (of_int maxHeartRate * 0.7),
                   bmax = jsround (of_int maxHeartRate * 0.85)\<rparr>,
      maxZone = \<lparr>bmin = jsround (of_int maxHeartRate * 0.85), bmax = maxHeartRate\<rparr>\<rparr>"

definition getEffortLevel :: "int \<Rightarrow> int \<Rightarrow> EffortReading" where
  "getEffortLevel hr maxHeartRate =
     (let zones = calculateHeartRateZones maxHeartRate in
      if hr \<le> bmax (recovery zones) then
        \<lparr>zone = ''Recovery'',
         intensity = Math_round ((num hr / num (bmax (recovery zones))) * Fin 20),
         description = ''Very Light''\<rparr>
      else if hr \<le> bmax (fatBurn zones) then
        \<lparr>zone = ''Fat Burn'',
         intensity = Math_round (Fin 20 +
           (num (hr - bmin (fatBurn zones)) /
            num (bmax (fatBurn zones) - bmin (fatBurn zones))) * Fin 20),
         description = ''Light''\<rparr>
      else if hr \<le> bmax (aerobic zones) then
        \<lparr>zone = ''Aerobic'',
         intensity = Math_round (Fin 40 +
           (num (hr - bmin (aerobic zones)) /
            num (bmax (aerobic zones) - bmin (aerobic zones))) * Fin 20),
         description = ''Moderate''\<rparr>
      else if hr \<le> bmax (anaerobic zones) then
        \<lparr>zone = ''Anaerobic'',
         intensity = Math_round (Fin 60 +
           (num (hr - bmin (anaerobic zones)) /
            num (bmax (anaerobic zones) - bmin (anaerobic zones))) * Fin 20),
         description = ''Hard''\<rparr>
      else
        \<lparr>zone = ''Max'',
         intensity = Math_round (Fin 80 +
           (num (hr - bmin (maxZone zones)) /
            num (bmax (maxZone zones) - bmin (maxZone zones))) * Fin 20),
         description = ''Maximum''\<rparr>)"

section \<open>The quality of a workout\<close>

text \<open>
  The parts of \<^verbatim>\<open>calculateWorkoutQuality\<close>, each named after the local variable
  it computes. The tests \<^verbatim>\<open>!data.heartRate\<close> and \<^verbatim>\<open>d.heartRate && ...\<close>
  take \<^verbatim>\<open>null\<close> and \<open>0\<close> alike; the filter of \<^verbatim>\<open>validHRs\<close> tests
  \<^verbatim>\<open>!== null\<close> only.
\<close>

definition intensities :: "HeartRateData list \<Rightarrow> int \<Rightarrow> jsnum list" where
  "intensities heartRateData maxHeartRate =
     map (\<lambda>data. case heartRate data of
            None \<Rightarrow> Fin 0
          | Some hr \<Rightarrow> if hr = 0 then Fin 0
                      else intensity (getEffortLevel hr maxHeartRate))
       heartRateData"

text \<open>\<^verbatim>\<open>timeInZones[z] += 1\<close> on the object of the five counters.\<close>

definition incr :: "string \<Rightarrow> (string \<times> jsnum) list \<Rightarrow> (string \<times> jsnum) list" where
  "incr z tiz = map (\<lambda>(k, v). if k = z then (k, v + Fin 1) else (k, v)) tiz"

definition tallyZone ::
  "Zones \<Rightarrow> (string \<times> jsnum) list \<Rightarrow> HeartRateData \<Rightarrow> (string \<times> jsnum) list" where
  "tallyZone zones tiz data =
     (case heartRate data of
        None \<Rightarrow> tiz
      | Some hr \<Rightarrow>
          if hr = 0 then tiz
          else if hr \<le> bmax (recovery zones) then incr ''recovery'' tiz
          else if hr \<le> bmax (fatBurn zones) then incr ''fatBurn'' tiz
          else if hr \<le> bmax (aerobic zones) then incr ''aerobic'' tiz
          else if hr \<le> bmax (anaerobic zones) then incr ''anaerobic'' tiz
          else incr ''max'' tiz)"

definition zoneCounts :: "HeartRateData list \<Rightarrow> int \<Rightarrow> (string \<times> jsnum) list" where
  "zoneCounts heartRateData maxHeartRate =
     foldl (tallyZone (calculateHeartRateZones maxHeartRate))
       [(''recovery'', Fin 0), (''fatBurn'', Fin 0), (''aerobic'', Fin 0),
        (''anaerobic'', Fin 0), (''max'', Fin 0)]
       heartRateData"

definition toPercent :: "nat \<Rightarrow> (string \<times> jsnum) list \<Rightarrow> (string \<times> jsnum) list" where
  "toPercent total' tiz =
     map (\<lambda>(z, c). (z, Math_round ((c / numn total') * Fin 100))) tiz"

text \<open>A property read of the object: \<^verbatim>\<open>undefined\<close>, NaN in arithmetic, for a missing key.\<close>

definition zoneValue :: "(string \<times> jsnum) list \<Rightarrow> string \<Rightarrow> jsnum" where
  "zoneValue tiz z = optnum (map_of tiz z)"

definition validHRs :: "HeartRateData list \<Rightarrow> int list" where
  "validHRs heartRateData =
     map (\<lambda>d. the (heartRate d)) (filter (\<lambda>d. heartRate d \<noteq> None) heartRateData)"

text \<open>
  The population standard deviation, rounded; absent unless there are two valid readings.
  The divisor is the length, which the guard makes positive.
\<close>

definition hrVariabilityOf :: "int list \<Rightarrow> int option" where
  "hrVariabilityOf hrs =
     (if length hrs > 1 then
        let mean = (of_int (foldl (+) 0 hrs) :: rat) / of_nat (length hrs);
            variance = foldl (\<lambda>sum hr. sum + (of_int hr - mean) ^ 2) 0 hrs
                         / of_nat (length hrs)
        in Some (round_sqrt variance)
      else None)"

definition peakSpikesOf :: "HeartRateData list \<Rightarrow> int \<Rightarrow> nat" where
  "peakSpikesOf heartRateData maxHeartRate =
     (let anaerobicThreshold = jsround (of_int maxHeartRate * 0.85) in
      length (filter (\<lambda>d. case heartRate d of
                              None \<Rightarrow> False
                            | Some hr \<Rightarrow> hr \<noteq> 0 \<and> hr > anaerobicThreshold)
                heartRateData))"

text \<open>The state of the run scan is \<open>(maxSustainedAerobic, currentSustained)\<close>.\<close>

definition sustainedStep :: "int \<Rightarrow> int \<Rightarrow> nat \<times> nat \<Rightarrow> HeartRateData \<Rightarrow> nat \<times> nat" where
  "sustainedStep aerobicMin aerobicMax st data =
     (case st of (maxSustainedAerobic, currentSustained) \<Rightarrow>
        (case heartRate data of
           None \<Rightarrow> (maxSustainedAerobic, 0)
         | Some hr \<Rightarrow>
             if hr \<noteq> 0 \<and> hr \<ge> aerobicMin \<and> hr \<le> aerobicMax
             then (max maxSustainedAerobic (currentSustained + 1), currentSustained + 1)
             else (maxSustainedAerobic, 0)))"

definition sustainedAerobicOf :: "HeartRateData list \<Rightarrow> int \<Rightarrow> jsnum" where
  "sustainedAerobicOf heartRateData maxHeartRate =
     (let aerobicMin = jsround (of_int maxHeartRate * 0.6);
          aerobicMax = jsround (of_int maxHeartRate * 0.7);
          maxSustainedAerobic =
            fst (foldl (sustainedStep aerobicMin aerobicMax) (0, 0) heartRateData)
      in Math_round ((numn maxSustainedAerobic / numn (length heartRateData)) * Fin 100))"

text \<open>The state of the transition scan is \<open>(zoneTransitions, previousZone)\<close>.\<close>

definition transitionStep :: "Zones \<Rightarrow> nat \<times> string \<Rightarrow> HeartRateData \<Rightarrow> nat \<times> string" where
  "transitionStep zones st data =
     (case st of (zoneTransitions', previousZone) \<Rightarrow>
        (case heartRate data of
           None \<Rightarrow> st
         | Some hr \<Rightarrow>
             if hr = 0 then st
             else
               let currentZone =
                     (if hr \<le> bmax (recovery zones) then ''recovery''
                      else if hr \<le> bmax (fatBurn zones) then ''fatBurn''
                      else if hr \<le> bmax (aerobic zones) then ''aerobic''
                      else if hr \<le> bmax (anaerobic zones) then ''anaerobic''
                      else ''max'')
               in (if previousZone \<noteq> [] \<and> previousZone \<noteq> currentZone
                   then zoneTransitions' + 1 else zoneTransitions',
                   currentZone)))"

definition zoneTransitionsOf :: "HeartRateData list \<Rightarrow> int \<Rightarrow> nat" where
  "zoneTransitionsOf heartRateData maxHeartRate =
     fst (foldl (transitionStep (calculateHeartRateZones maxHeartRate)) (0, [])
            heartRateData)"

text \<open>
  The \<^verbatim>\<open>switch\<close> on the workout type. \<open>n\<close> is \<^verbatim>\<open>heartRateData.length\<close>;
  a sum is evaluated from the left, as the program does.
\<close>

definition scoreOf ::
  "WorkoutType \<Rightarrow> WorkoutSpecific \<Rightarrow> nat \<Rightarrow> jsnum \<Rightarrow> jsnum \<Rightarrow> (string \<times> jsnum) list
     \<Rightarrow> jsnum \<Rightarrow> jsnum" where
  "scoreOf workoutType ws n averageIntensity' maxIntensity' timeInZones' durationScore =
     (let timeInHighIntensity =
            zoneValue timeInZones' ''anaerobic'' + zoneValue timeInZones' ''max''
      in if workoutType = Weightlifting then
           let variabilityScore =
                 (case hrVariability ws of
                    None \<Rightarrow> Fin 50
                  | Some v \<Rightarrow> if v = 0 then Fin 50
                             else jmin ((num v / Fin 30) * Fin 100) (Fin 100));
               spikesScore =
                 jmin ((optnum (map_option numn (peakSpikes ws))
                          / jmax (numn n / Fin 10) (Fin 1)) * Fin 100) (Fin 100)
           in Math_round (maxIntensity' * Fin 0.30 + spikesScore * Fin 0.25 +
                          variabilityScore * Fin 0.25 + durationScore * Fin 0.10 +
                          averageIntensity' * Fin 0.10)
         else if workoutType = Cardio \<or> workoutType = Running \<or> workoutType = Cycling then
           Math_round ((case sustainedAerobic ws of
                          None \<Rightarrow> Fin 0
                        | Some v \<Rightarrow> if v = Fin 0 \<or> v = NaN then Fin 0 else v) * Fin 0.35 +
                       averageIntensity' * Fin 0.30 + durationScore * Fin 0.20 +
                       zoneValue timeInZones' ''aerobic'' * Fin 0.15)
         else if workoutType = HIIT \<or> workoutType = CrossFit then
           let transitionsScore =
                 jmin ((optnum (map_option numn (zoneTransitions ws))
                          / jmax (numn n / Fin 5) (Fin 1)) * Fin 100) (Fin 100)
           in Math_round (timeInHighIntensity * Fin 0.30 + transitionsScore * Fin 0.25 +
                          maxIntensity' * Fin 0.25 + averageIntensity' * Fin 0.20)
         else
           Math_round (averageIntensity' * Fin 0.35 + maxIntensity' * Fin 0.30 +
                       timeInHighIntensity * Fin 0.20 + durationScore * Fin 0.15))"

definition qualityOf :: "jsnum \<Rightarrow> Quality" where
  "qualityOf score' =
     (if jge score' (Fin 80) then Excellent
      else if jge score' (Fin 60) then Good
      else if jge score' (Fin 40) then Fair
      else Poor)"

definition calculateWorkoutQuality ::
  "HeartRateData list \<Rightarrow> int \<Rightarrow> int \<Rightarrow> WorkoutType \<Rightarrow> WorkoutQuality" where
  "calculateWorkoutQuality heartRateData maxHeartRate duration workoutType =
     (if length heartRateData = 0 then
        \<lparr>averageIntensity = Fin 0, maxIntensity = Fin 0, timeInZones = [],
         quality = Poor, score = Fin 0, workoutSpecific = None\<rparr>
      else
        let ints = intensities heartRateData maxHeartRate;
            averageIntensity' = foldl (+) (Fin 0) ints / numn (length ints);
            maxIntensity' = Math_max ints;
            total' = length heartRateData;
            timeInZones' = toPercent total' (zoneCounts heartRateData maxHeartRate);
            ws = \<lparr>hrVariability = hrVariabilityOf (validHRs heartRateData),
                  peakSpikes = Some (peakSpikesOf heartRateData maxHeartRate),
                  recoveryEfficiency = None,
                  sustainedAerobic = Some (sustainedAerobicOf heartRateData maxHeartRate),
                  zoneTransitions = Some (zoneTransitionsOf heartRateData maxHeartRate)\<rparr>;
            durationScore = jmin ((num duration / Fin 3600) * Fin 100) (Fin 100);
            score' = scoreOf workoutType ws (length heartRateData) averageIntensity'
                       maxIntensity' timeInZones' durationScore
        in \<lparr>averageIntensity = Math_round averageIntensity', maxIntensity = maxIntensity',
            timeInZones = timeInZones', quality = qualityOf score', score = score',
            workoutSpecific = Some ws\<rparr>)"

section \<open>Notions the properties are stated with\<close>

text \<open>
  The key of the zone of a reading: the chain of comparisons that the occupancy scan and
  the transition scan of the aggregator both run on a reading that is neither
  \<^verbatim>\<open>null\<close> nor \<open>0\<close>.
\<close>

definition zoneKey :: "Zones \<Rightarrow> int \<Rightarrow> string" where
  "zoneKey zones hr =
     (if hr \<le> bmax (recovery zones) then ''recovery''
      else if hr \<le> bmax (fatBurn zones) then ''fatBurn''
      else if hr \<le> bmax (aerobic zones) then ''aerobic''
      else if hr \<le> bmax (anaerobic zones) then ''anaerobic''
      else ''max'')"

text \<open>The name the classifier gives to the zone with a given key.\<close>

definition zoneName :: "string \<Rightarrow> string" where
  "zoneName k =
     (if k = ''recovery'' then ''Recovery''
      else if k = ''fatBurn'' then ''Fat Burn''
      else if k = ''aerobic'' then ''Aerobic''
      else if k = ''anaerobic'' then ''Anaerobic''
      else ''Max'')"


text \<open>The number of adjacent pairs of a sequence whose two members differ.\<close>

fun adjacentChanges :: "'a list \<Rightarrow> nat" where
  "adjacentChanges (x # y # xs) = (if x = y then 0 else 1) + adjacentChanges (y # xs)"
| "adjacentChanges xs = 0"

text \<open>A sample with its reading of \<open>0\<close> replaced by \<^verbatim>\<open>null\<close>.\<close>

definition nullified :: "HeartRateData \<Rightarrow> HeartRateData" where
  "nullified d = (if heartRate d = Some 0 then d\<lparr>heartRate := None\<rparr> else d)"




section \<open>The rounded square root\<close>

lemma floor_sqrt_nonpos: "n \<le> 0 \<Longrightarrow> floor_sqrt n = 0"
  by (subst floor_sqrt.simps) simp

lemma floor_sqrt_pos:
  "0 < n \<Longrightarrow> floor_sqrt n =
     (if (2 * floor_sqrt (n div 4) + 1) * (2 * floor_sqrt (n div 4) + 1) \<le> n
      then 2 * floor_sqrt (n div 4) + 1 else 2 * floor_sqrt (n div 4))"
  by (subst floor_sqrt.simps) (simp add: Let_def)

lemma floor_sqrt_correct:
  "0 \<le> floor_sqrt n \<and> (0 \<le> n \<longrightarrow> floor_sqrt n * floor_sqrt n \<le> n
      \<and> n < (floor_sqrt n + 1) * (floor_sqrt n + 1))"
proof (induction n rule: floor_sqrt.induct)
  case (1 n)
  show ?case
  proof (cases "n \<le> 0")
    case True
    then show ?thesis by (simp add: floor_sqrt_nonpos)
  next
    case False
    define s where "s = floor_sqrt (n div 4)"
    define a where "a = s * s"
    define b where "b = (s + 1) * (s + 1)"
    define c where "c = (2 * s + 1) * (2 * s + 1)"
    have d: "0 \<le> n div 4" "4 * (n div 4) \<le> n" "n < 4 * (n div 4) + 4"
      using False by simp_all
    from "1.IH" [OF False] d(1)
    have s: "0 \<le> s" "a \<le> n div 4" "n div 4 < b"
      by (simp_all add: s_def a_def b_def)
    have sq: "(2 * s + 1 + 1) * (2 * s + 1 + 1) = 4 * b" "(2 * s) * (2 * s) = 4 * a"
      by (simp_all add: a_def b_def algebra_simps)
    have v: "floor_sqrt n = (if c \<le> n then 2 * s + 1 else 2 * s)"
      using False by (simp add: floor_sqrt_pos s_def c_def)
    show ?thesis
    proof (cases "c \<le> n")
      case True
      then have r: "floor_sqrt n = 2 * s + 1" by (simp add: v)
      have "0 \<le> 2 * s + 1" using s(1) by simp
      moreover have "(2 * s + 1) * (2 * s + 1) \<le> n" using True by (simp add: c_def)
      moreover have "n < (2 * s + 1 + 1) * (2 * s + 1 + 1)"
        unfolding sq using s(3) d(3) by linarith
      ultimately show ?thesis unfolding r by blast
    next
      case False
      then have r: "floor_sqrt n = 2 * s" by (simp add: v)
      have "0 \<le> 2 * s" using s(1) by simp
      moreover have "(2 * s) * (2 * s) \<le> n" unfolding sq using s(2) d(2) by linarith
      moreover have "n < (2 * s + 1) * (2 * s + 1)" using False by (simp add: c_def)
      ultimately show ?thesis unfolding r by blast
    qed
  qed
qed


text \<open>
  The integer computation is the rounded square root of the reals.
\<close>

lemma round_sqrt_correct:
  assumes "0 \<le> v"
  shows "round_sqrt v = \<lfloor>sqrt (real_of_rat v) + 1 / 2\<rfloor>"
proof -
  define m where "m = \<lfloor>4 * v\<rfloor>"
  define s where "s = floor_sqrt m"
  define k where "k = (s + 1) div 2"
  define x where "x = real_of_rat (4 * v)"
  have m0: "0 \<le> m" using assms by (simp add: m_def)
  from floor_sqrt_correct [of m] m0
  have s: "0 \<le> s" "s * s \<le> m" "m < (s + 1) * (s + 1)" by (simp_all add: s_def)
  have "rat_of_int m \<le> 4 * v" unfolding m_def by (rule of_int_floor_le)
  then have "real_of_rat (rat_of_int m) \<le> x" unfolding x_def by (simp only: of_rat_less_eq)
  then have mx1: "real_of_int m \<le> x" by (simp only: of_rat_of_int_eq)
  have "4 * v < rat_of_int m + 1" unfolding m_def by linarith
  then have "x < real_of_rat (rat_of_int m + 1)" unfolding x_def by (simp only: of_rat_less)
  then have mx2: "x < real_of_int m + 1" by (simp add: of_rat_add)
  have "real_of_int (s * s) \<le> x" using s(2) mx1 by linarith
  then have "(real_of_int s)\<^sup>2 \<le> x" by (simp add: power2_eq_square)
  then have lo: "real_of_int s \<le> sqrt x" by (rule real_le_rsqrt)
  have "m + 1 \<le> (s + 1) * (s + 1)" using s(3) by simp
  then have "real_of_int (m + 1) \<le> real_of_int ((s + 1) * (s + 1))" by (simp only: of_int_le_iff)
  with mx2 have "x < real_of_int ((s + 1) * (s + 1))" by simp
  then have "x < (real_of_int (s + 1))\<^sup>2" by (simp add: power2_eq_square)
  moreover have "0 \<le> real_of_int (s + 1)" using s(1) by simp
  ultimately have hi: "sqrt x < real_of_int (s + 1)" by (intro real_less_lsqrt)
  have k: "2 * k - 1 \<le> s" "s + 1 \<le> 2 * k + 1" unfolding k_def by presburger+
  have "x = 4 * real_of_rat v" unfolding x_def by (simp add: of_rat_mult)
  then have sx: "sqrt x = 2 * sqrt (real_of_rat v)" by (simp add: real_sqrt_mult)
  have k1: "real_of_int (2 * k - 1) \<le> real_of_int s" using k(1) by (simp only: of_int_le_iff)
  have k2: "real_of_int (s + 1) \<le> real_of_int (2 * k + 1)" using k(2) by (simp only: of_int_le_iff)
  have "real_of_int k \<le> sqrt (real_of_rat v) + 1 / 2"
    using lo k1 sx by simp
  moreover have "sqrt (real_of_rat v) + 1 / 2 < real_of_int k + 1"
    using hi k2 sx by simp
  ultimately have "\<lfloor>sqrt (real_of_rat v) + 1 / 2\<rfloor> = k" by (rule floor_unique)
  then show ?thesis by (simp add: round_sqrt_def k_def s_def m_def)
qed

section \<open>The result depends on the readings only\<close>

lemma foldl_heartRate_cong:
  fixes xs ys :: "HeartRateData list"
  assumes "map heartRate xs = map heartRate ys"
    and "\<And>a x y. heartRate x = heartRate y \<Longrightarrow> step a x = step a y"
  shows "foldl step a xs = foldl step a ys"
  using assms(1)
proof (induction xs arbitrary: ys a)
  case Nil
  then show ?case by simp
next
  case (Cons x xs)
  then obtain y ys' where ys: "ys = y # ys'" "heartRate x = heartRate y"
    "map heartRate xs = map heartRate ys'"
    by (cases ys) simp_all
  have "step a x = step a y" using assms(2) ys(2) by blast
  with Cons.IH [OF ys(3)] ys(1) show ?case by simp
qed

lemma map_heartRate_cong:
  fixes xs ys :: "HeartRateData list"
  assumes "map heartRate xs = map heartRate ys"
    and "\<And>x y. heartRate x = heartRate y \<Longrightarrow> g x = g y"
  shows "map g xs = map g ys"
  using assms(1)
proof (induction xs arbitrary: ys)
  case Nil
  then show ?case by simp
next
  case (Cons x xs)
  then obtain y ys' where ys: "ys = y # ys'" "heartRate x = heartRate y"
    "map heartRate xs = map heartRate ys'"
    by (cases ys) simp_all
  have "g x = g y" using assms(2) ys(2) by blast
  with Cons.IH [OF ys(3)] ys(1) show ?case by simp
qed

lemma filter_heartRate_map:
  fixes zs :: "HeartRateData list"
  shows "map heartRate (filter (\<lambda>d. P (heartRate d)) zs) = filter P (map heartRate zs)"
  by (induction zs) simp_all

lemma length_cong:
  fixes xs ys :: "HeartRateData list"
  shows "map heartRate xs = map heartRate ys \<Longrightarrow> length xs = length ys"
  using map_eq_imp_length_eq by blast

lemma intensities_cong:
  "map heartRate xs = map heartRate ys \<Longrightarrow> intensities xs M = intensities ys M"
  unfolding intensities_def by (erule map_heartRate_cong) simp

lemma zoneCounts_cong:
  "map heartRate xs = map heartRate ys \<Longrightarrow> zoneCounts xs M = zoneCounts ys M"
  unfolding zoneCounts_def by (erule foldl_heartRate_cong) (simp add: tallyZone_def)

lemma validHRs_cong:
  assumes "map heartRate xs = map heartRate ys"
  shows "validHRs xs = validHRs ys"
proof -
  have "validHRs zs = map the (filter (\<lambda>h. h \<noteq> None) (map heartRate zs))" for zs
    unfolding validHRs_def filter_heartRate_map [symmetric] by simp
  then show ?thesis by (simp only: assms)
qed

lemma peakSpikesOf_cong:
  assumes "map heartRate xs = map heartRate ys"
  shows "peakSpikesOf xs M = peakSpikesOf ys M"
proof -
  have "length (filter (\<lambda>d. P (heartRate d)) zs) = length (filter P (map heartRate zs))"
    for P and zs :: "HeartRateData list"
    unfolding filter_heartRate_map [symmetric] by simp
  then show ?thesis unfolding peakSpikesOf_def Let_def by (simp only: assms)
qed

lemma sustainedAerobicOf_cong:
  assumes "map heartRate xs = map heartRate ys"
  shows "sustainedAerobicOf xs M = sustainedAerobicOf ys M"
proof -
  have "foldl (sustainedStep lo hi) a xs = foldl (sustainedStep lo hi) a ys" for lo hi a
    using assms by (rule foldl_heartRate_cong) (simp add: sustainedStep_def)
  then show ?thesis by (simp add: sustainedAerobicOf_def length_cong [OF assms])
qed

lemma zoneTransitionsOf_cong:
  assumes "map heartRate xs = map heartRate ys"
  shows "zoneTransitionsOf xs M = zoneTransitionsOf ys M"
proof -
  have "foldl (transitionStep z) a xs = foldl (transitionStep z) a ys" for z a
    using assms by (rule foldl_heartRate_cong) (simp add: transitionStep_def)
  then show ?thesis by (simp add: zoneTransitionsOf_def)
qed

text \<open>The time stamps play no part in the result.\<close>

lemma calculateWorkoutQuality_cong:
  assumes "map heartRate xs = map heartRate ys"
  shows "calculateWorkoutQuality xs M D T = calculateWorkoutQuality ys M D T"
  unfolding calculateWorkoutQuality_def
  by (simp only: intensities_cong [OF assms] zoneCounts_cong [OF assms] validHRs_cong [OF assms]
      peakSpikesOf_cong [OF assms] sustainedAerobicOf_cong [OF assms]
      zoneTransitionsOf_cong [OF assms] length_cong [OF assms])

text \<open>A sample sequence with given readings.\<close>

lemma heartRate_of_readings:
  "map heartRate (map (\<lambda>h. \<lparr>heartRate = h, timestamp = 0\<rparr>) hs) = hs"
  by (induction hs) simp_all

lemma calculateWorkoutQuality_readings:
  assumes "map heartRate xs = hs"
  shows "calculateWorkoutQuality xs M D T =
         calculateWorkoutQuality (map (\<lambda>h. \<lparr>heartRate = h, timestamp = 0\<rparr>) hs) M D T"
  by (rule calculateWorkoutQuality_cong) (simp only: heartRate_of_readings assms)

section \<open>The empty sample sequence\<close>

text \<open>
  Claim C3. For every maximum heart rate, every duration and every workout type, the
  aggregator on the empty sample sequence returns exactly the canonical empty result:
  average and peak intensity 0, no zone entry at all, quality Poor, score 0, and no
  workout-specific block.
\<close>

theorem calculateWorkoutQuality_empty:
  "calculateWorkoutQuality [] M D T =
     \<lparr>averageIntensity = Fin 0, maxIntensity = Fin 0, timeInZones = [],
      quality = Poor, score = Fin 0, workoutSpecific = None\<rparr>"
  by (simp add: calculateWorkoutQuality_def)

section \<open>Scenario A: one reading on the first boundary\<close>

text \<open>
  Claim C1 says that one reading of 100 at a maximum heart rate of 200, with duration 60
  and type Other, falls into the fat-burn band, fills the fat-burn entry to 100 and
  scores 19. The reading equals the upper edge of the recovery band, so the classifier
  and the occupancy scan both put it into recovery, and the weighted sum is
  \<open>0.35 \<sqdot> 20 + 0.30 \<sqdot> 20 + 0.20 \<sqdot> 0 + 0.15 \<sqdot> 5/3 = 13.25\<close>, which rounds to 13.
\<close>

theorem scenario_A_counterexample:
  "score (calculateWorkoutQuality [\<lparr>heartRate = Some 100, timestamp = 0\<rparr>] 200 60 Other)
     \<noteq> Fin 19
   \<and> map_of (timeInZones
        (calculateWorkoutQuality [\<lparr>heartRate = Some 100, timestamp = 0\<rparr>] 200 60 Other))
       ''fatBurn'' \<noteq> Some (Fin 100)
   \<and> zone (getEffortLevel 100 200) \<noteq> ''Fat Burn''"
  by code_simp

text \<open>
  Claim C1, as amended. At a maximum heart rate of 200 the single sample with reading
  100 and time stamp 0, with duration 60 and type Other, is classified into the recovery
  band with intensity 20; the result has average and peak intensity 20, the recovery
  entry at 100 and every other zone at 0, score 13 and quality Poor.
\<close>

theorem scenario_A:
  "calculateWorkoutQuality [\<lparr>heartRate = Some 100, timestamp = 0\<rparr>] 200 60 Other =
     \<lparr>averageIntensity = Fin 20, maxIntensity = Fin 20,
      timeInZones = [(''recovery'', Fin 100), (''fatBurn'', Fin 0), (''aerobic'', Fin 0),
                     (''anaerobic'', Fin 0), (''max'', Fin 0)],
      quality = Poor, score = Fin 13,
      workoutSpecific = Some \<lparr>hrVariability = None, peakSpikes = Some 0,
        recoveryEfficiency = None, sustainedAerobic = Some (Fin 0),
        zoneTransitions = Some 0\<rparr>\<rparr>
   \<and> getEffortLevel 100 200 =
       \<lparr>zone = ''Recovery'', intensity = Fin 20, description = ''Very Light''\<rparr>"
  by code_simp

section \<open>Scenario B: alternating readings in an interval workout\<close>

lemma HIIT_duration:
  "calculateWorkoutQuality xs M D HIIT = calculateWorkoutQuality xs M 0 HIIT"
  by (simp add: calculateWorkoutQuality_def scoreOf_def Let_def)

lemma scenario_B_low_first:
  "calculateWorkoutQuality (map (\<lambda>h. \<lparr>heartRate = h, timestamp = 0\<rparr>)
       [Some 60, Some 190, Some 60, Some 190, Some 60, Some 190, Some 60, Some 190,
        Some 60, Some 190]) 200 0 HIIT =
     \<lparr>averageIntensity = Fin 53, maxIntensity = Fin 93,
      timeInZones = [(''recovery'', Fin 50), (''fatBurn'', Fin 0), (''aerobic'', Fin 0),
                     (''anaerobic'', Fin 0), (''max'', Fin 50)],
      quality = Good, score = Fin 74,
      workoutSpecific = Some \<lparr>hrVariability = Some 65, peakSpikes = Some 5,
        recoveryEfficiency = None, sustainedAerobic = Some (Fin 0),
        zoneTransitions = Some 9\<rparr>\<rparr>"
  by code_simp

lemma scenario_B_high_first:
  "calculateWorkoutQuality (map (\<lambda>h. \<lparr>heartRate = h, timestamp = 0\<rparr>)
       [Some 190, Some 60, Some 190, Some 60, Some 190, Some 60, Some 190, Some 60,
        Some 190, Some 60]) 200 0 HIIT =
     \<lparr>averageIntensity = Fin 53, maxIntensity = Fin 93,
      timeInZones = [(''recovery'', Fin 50), (''fatBurn'', Fin 0), (''aerobic'', Fin 0),
                     (''anaerobic'', Fin 0), (''max'', Fin 50)],
      quality = Good, score = Fin 74,
      workoutSpecific = Some \<lparr>hrVariability = Some 65, peakSpikes = Some 5,
        recoveryEfficiency = None, sustainedAerobic = Some (Fin 0),
        zoneTransitions = Some 9\<rparr>\<rparr>"
  by code_simp

text \<open>
  Claim C4 expects a score of at least 80 for ten readings alternating between 60 and
  190 at a maximum heart rate of 200 in a HIIT workout. The nine transitions are there,
  but the weighted sum is \<open>0.30 \<sqdot> 50 + 0.25 \<sqdot> 100 + 0.25 \<sqdot> 93 + 0.20 \<sqdot> 52.5 = 73.75\<close>:
  the score is 74 and the quality Good.
\<close>

theorem scenario_B_counterexample:
  "\<not> jge (score (calculateWorkoutQuality (map (\<lambda>h. \<lparr>heartRate = h, timestamp = 0\<rparr>)
       [Some 60, Some 190, Some 60, Some 190, Some 60, Some 190, Some 60, Some 190,
        Some 60, Some 190]) 200 600 HIIT)) (Fin 80)
   \<and> quality (calculateWorkoutQuality (map (\<lambda>h. \<lparr>heartRate = h, timestamp = 0\<rparr>)
       [Some 60, Some 190, Some 60, Some 190, Some 60, Some 190, Some 60, Some 190,
        Some 60, Some 190]) 200 600 HIIT) \<noteq> Excellent"
  by code_simp

text \<open>
  Claim C4, as amended. For a maximum heart rate of 200, every duration, and ten samples
  whose readings alternate between 60 and 190 (five each, whichever comes first, with
  any time stamps), a HIIT workout has 9 zone transitions, score 74 and quality Good;
  half of the samples are in the max band and half in recovery.
\<close>

theorem scenario_B:
  assumes "map heartRate samples =
       [Some 60, Some 190, Some 60, Some 190, Some 60, Some 190, Some 60, Some 190,
        Some 60, Some 190]
     \<or> map heartRate samples =
       [Some 190, Some 60, Some 190, Some 60, Some 190, Some 60, Some 190, Some 60,
        Some 190, Some 60]"
  shows "calculateWorkoutQuality samples 200 D HIIT =
     \<lparr>averageIntensity = Fin 53, maxIntensity = Fin 93,
      timeInZones = [(''recovery'', Fin 50), (''fatBurn'', Fin 0), (''aerobic'', Fin 0),
                     (''anaerobic'', Fin 0), (''max'', Fin 50)],
      quality = Good, score = Fin 74,
      workoutSpecific = Some \<lparr>hrVariability = Some 65, peakSpikes = Some 5,
        recoveryEfficiency = None, sustainedAerobic = Some (Fin 0),
        zoneTransitions = Some 9\<rparr>\<rparr>"
proof -
  have D: "calculateWorkoutQuality samples 200 D HIIT =
      calculateWorkoutQuality samples 200 0 HIIT"
    by (rule HIIT_duration)
  from assms show ?thesis
  proof
    assume a: "map heartRate samples =
       [Some 60, Some 190, Some 60, Some 190, Some 60, Some 190, Some 60, Some 190,
        Some 60, Some 190]"
    show ?thesis
      by (simp only: D calculateWorkoutQuality_readings [OF a, of 200 0 HIIT]
            scenario_B_low_first)
  next
    assume b: "map heartRate samples =
       [Some 190, Some 60, Some 190, Some 60, Some 190, Some 60, Some 190, Some 60,
        Some 190, Some 60]"
    show ?thesis
      by (simp only: D calculateWorkoutQuality_readings [OF b, of 200 0 HIIT]
            scenario_B_high_first)
  qed
qed

theorem scenario_B_witness:
  "calculateWorkoutQuality
     [\<lparr>heartRate = Some 60, timestamp = 0\<rparr>, \<lparr>heartRate = Some 190, timestamp = 60\<rparr>,
      \<lparr>heartRate = Some 60, timestamp = 120\<rparr>, \<lparr>heartRate = Some 190, timestamp = 180\<rparr>,
      \<lparr>heartRate = Some 60, timestamp = 240\<rparr>, \<lparr>heartRate = Some 190, timestamp = 300\<rparr>,
      \<lparr>heartRate = Some 60, timestamp = 360\<rparr>, \<lparr>heartRate = Some 190, timestamp = 420\<rparr>,
      \<lparr>heartRate = Some 60, timestamp = 480\<rparr>, \<lparr>heartRate = Some 190, timestamp = 540\<rparr>]
     200 600 HIIT =
     \<lparr>averageIntensity = Fin 53, maxIntensity = Fin 93,
      timeInZones = [(''recovery'', Fin 50), (''fatBurn'', Fin 0), (''aerobic'', Fin 0),
                     (''anaerobic'', Fin 0), (''max'', Fin 50)],
      quality = Good, score = Fin 74,
      workoutSpecific = Some \<lparr>hrVariability = Some 65, peakSpikes = Some 5,
        recoveryEfficiency = None, sustainedAerobic = Some (Fin 0),
        zoneTransitions = Some 9\<rparr>\<rparr>"
  by (rule scenario_B) simp

section \<open>Readings above the maximum heart rate\<close>

text \<open>
  Claim C7 bounds the intensity of every reading by 100, as the comment on the result
  type of \<^verbatim>\<open>getEffortLevel\<close> does. The catch-all branch extrapolates instead: a
  reading of 230 at a maximum heart rate of 200, which the manual entry accepts, gets
  \<open>80 + (230 - 170) / (200 - 170) \<sqdot> 20 = 120\<close>.
\<close>

theorem getEffortLevel_above_max:
  "getEffortLevel 230 200 =
     \<lparr>zone = ''Max'', intensity = Fin 120, description = ''Maximum''\<rparr>"
  by code_simp

section \<open>Arguments out of range\<close>



section \<open>The intensity of a reading up to the maximum heart rate\<close>


lemma jsround_of_int [simp]: "jsround (of_int n) = n"
  unfolding jsround_def by linarith







lemma num_arith [simp]:
  "num a / num b = (if b = 0 then (if a = 0 then NaN else if 0 < a then PInf else NInf)
                    else Fin (of_int a / of_int b))"
  by (simp add: num_def)






section \<open>Readings on a boundary between two zones\<close>







section \<open>Zone transitions\<close>

lemma zoneKey_nonempty: "zoneKey z hr \<noteq> []"
  by (simp add: zoneKey_def)

lemma transitionStep_zoneKey:
  "transitionStep z (n, p) d =
     (case heartRate d of
        None \<Rightarrow> (n, p)
      | Some hr \<Rightarrow>
          if hr = 0 then (n, p)
          else (if p \<noteq> [] \<and> p \<noteq> zoneKey z hr then n + 1 else n, zoneKey z hr))"
  by (simp add: transitionStep_def zoneKey_def Let_def split: option.splits)

lemma validHRs_Cons:
  "validHRs (d # ds) = (case heartRate d of None \<Rightarrow> validHRs ds | Some hr \<Rightarrow> hr # validHRs ds)"
  by (simp add: validHRs_def split: option.splits)

lemma validHRs_Nil [simp]: "validHRs [] = []"
  by (simp add: validHRs_def)

lemma transitions_fold:
  "fst (foldl (transitionStep z) (n, p) xs) =
     n + adjacentChanges
           ((if p = [] then [] else [p]) @
            map (zoneKey z) (filter (\<lambda>hr. hr \<noteq> 0) (validHRs xs)))"
proof (induction xs arbitrary: n p)
  case Nil
  then show ?case by simp
next
  case (Cons d ds)
  show ?case
  proof (cases "heartRate d")
    case None
    then show ?thesis by (simp add: transitionStep_zoneKey validHRs_Cons Cons.IH)
  next
    case (Some hr)
    then show ?thesis
      by (simp add: transitionStep_zoneKey validHRs_Cons Cons.IH zoneKey_nonempty)
  qed
qed

lemma zone_getEffortLevel: "zone (getEffortLevel hr M) = zoneName (zoneKey (calculateHeartRateZones M) hr)"
  by (simp add: getEffortLevel_def zoneKey_def zoneName_def Let_def)

lemma zoneName_zoneKey_eq:
  "zoneName (zoneKey z a) = zoneName (zoneKey z b) \<longleftrightarrow> zoneKey z a = zoneKey z b"
  by (simp add: zoneKey_def zoneName_def)

lemma adjacentChanges_map_cong:
  assumes "\<And>a b. f a = f b \<longleftrightarrow> g a = g b"
  shows "adjacentChanges (map f xs) = adjacentChanges (map g xs)"
proof (induction xs rule: adjacentChanges.induct)
  case (1 x y xs)
  then show ?case using assms by simp
qed simp_all

text \<open>
  Claim C8 counts the adjacent pairs of differing zones in the sequence of the samples
  that are not \<^verbatim>\<open>null\<close>. The scan skips a reading of \<open>0\<close> as well: for the
  readings 190, 0, 190 at a maximum heart rate of 200 it counts no transition, while the
  zones of the three readings, max, recovery, max, differ twice.
\<close>

theorem zoneTransitions_counterexample:
  "zoneTransitionsOf [\<lparr>heartRate = Some 190, timestamp = 0\<rparr>, \<lparr>heartRate = Some 0, timestamp = 1\<rparr>,
       \<lparr>heartRate = Some 190, timestamp = 2\<rparr>] 200 = 0
   \<and> adjacentChanges (map (\<lambda>hr. zone (getEffortLevel hr 200))
        (validHRs [\<lparr>heartRate = Some 190, timestamp = 0\<rparr>, \<lparr>heartRate = Some 0, timestamp = 1\<rparr>,
           \<lparr>heartRate = Some 190, timestamp = 2\<rparr>])) = 2"
  by code_simp

text \<open>
  Claim C8, as amended. The transition scan skips every sample whose reading is
  \<^verbatim>\<open>null\<close> or \<open>0\<close> without resetting the comparison, and the previous zone advances
  on every other sample: the number of zone transitions is the number of adjacent pairs
  with differing classified zones in the sequence of the readings that are neither
  \<^verbatim>\<open>null\<close> nor \<open>0\<close>. For a non-empty sample sequence this number is the
  \<^verbatim>\<open>zoneTransitions\<close> field of the result.
\<close>

theorem zoneTransitions_characterised:
  "zoneTransitionsOf xs M =
     adjacentChanges (map (\<lambda>hr. zone (getEffortLevel hr M))
                        (filter (\<lambda>hr. hr \<noteq> 0) (validHRs xs)))
   \<and> (xs \<noteq> [] \<longrightarrow>
        map_option zoneTransitions (workoutSpecific (calculateWorkoutQuality xs M D T)) =
          Some (Some (zoneTransitionsOf xs M)))"
proof -
  have "zoneTransitionsOf xs M =
      adjacentChanges (map (zoneKey (calculateHeartRateZones M))
                         (filter (\<lambda>hr. hr \<noteq> 0) (validHRs xs)))"
    unfolding zoneTransitionsOf_def transitions_fold by simp
  also have "\<dots> = adjacentChanges (map (\<lambda>hr. zone (getEffortLevel hr M))
                        (filter (\<lambda>hr. hr \<noteq> 0) (validHRs xs)))"
    by (rule adjacentChanges_map_cong) (simp add: zone_getEffortLevel zoneName_zoneKey_eq)
  finally show ?thesis by (simp add: calculateWorkoutQuality_def Let_def)
qed

theorem zoneTransitions_characterised_witness:
  "[\<lparr>heartRate = Some 190, timestamp = 0\<rparr>, \<lparr>heartRate = None, timestamp = 1\<rparr>,
      \<lparr>heartRate = Some 60, timestamp = 2\<rparr>, \<lparr>heartRate = Some 0, timestamp = 3\<rparr>,
      \<lparr>heartRate = Some 60, timestamp = 4\<rparr>, \<lparr>heartRate = None, timestamp = 5\<rparr>,
      \<lparr>heartRate = Some 190, timestamp = 6\<rparr>] \<noteq> []
   \<and> zoneTransitionsOf [\<lparr>heartRate = Some 190, timestamp = 0\<rparr>, \<lparr>heartRate = None, timestamp = 1\<rparr>,
      \<lparr>heartRate = Some 60, timestamp = 2\<rparr>, \<lparr>heartRate = Some 0, timestamp = 3\<rparr>,
      \<lparr>heartRate = Some 60, timestamp = 4\<rparr>, \<lparr>heartRate = None, timestamp = 5\<rparr>,
      \<lparr>heartRate = Some 190, timestamp = 6\<rparr>] 200 = 2
   \<and> adjacentChanges (map (\<lambda>hr. zone (getEffortLevel hr 200))
        (filter (\<lambda>hr. hr \<noteq> 0) (validHRs [\<lparr>heartRate = Some 190, timestamp = 0\<rparr>, \<lparr>heartRate = None, timestamp = 1\<rparr>,
      \<lparr>heartRate = Some 60, timestamp = 2\<rparr>, \<lparr>heartRate = Some 0, timestamp = 3\<rparr>,
      \<lparr>heartRate = Some 60, timestamp = 4\<rparr>, \<lparr>heartRate = None, timestamp = 5\<rparr>,
      \<lparr>heartRate = Some 190, timestamp = 6\<rparr>]))) = 2
   \<and> map_option zoneTransitions (workoutSpecific (calculateWorkoutQuality
        [\<lparr>heartRate = Some 190, timestamp = 0\<rparr>, \<lparr>heartRate = None, timestamp = 1\<rparr>,
      \<lparr>heartRate = Some 60, timestamp = 2\<rparr>, \<lparr>heartRate = Some 0, timestamp = 3\<rparr>,
      \<lparr>heartRate = Some 60, timestamp = 4\<rparr>, \<lparr>heartRate = None, timestamp = 5\<rparr>,
      \<lparr>heartRate = Some 190, timestamp = 6\<rparr>] 200 60 HIIT)) = Some (Some 2)"
proof -
  define xs where "xs =
     [\<lparr>heartRate = Some 190, timestamp = 0\<rparr>, \<lparr>heartRate = None, timestamp = 1\<rparr>,
      \<lparr>heartRate = Some 60, timestamp = 2\<rparr>, \<lparr>heartRate = Some 0, timestamp = 3\<rparr>,
      \<lparr>heartRate = Some 60, timestamp = 4\<rparr>, \<lparr>heartRate = None, timestamp = 5\<rparr>,
      \<lparr>heartRate = Some 190, timestamp = 6\<rparr>]"
  have ne: "xs \<noteq> []" by (simp add: xs_def)
  have a: "zoneTransitionsOf xs 200 = 2" unfolding xs_def by code_simp
  note t = zoneTransitions_characterised [of xs 200 60 HIIT]
  have b: "adjacentChanges (map (\<lambda>hr. zone (getEffortLevel hr 200))
        (filter (\<lambda>hr. hr \<noteq> 0) (validHRs xs))) = 2"
    using t [THEN conjunct1] a by (simp only:)
  have c: "map_option zoneTransitions (workoutSpecific (calculateWorkoutQuality xs 200 60 HIIT))
      = Some (Some 2)"
    using t [THEN conjunct2, rule_format, OF ne] a by (simp only:)
  from ne a b c show ?thesis unfolding xs_def by (intro conjI)
qed

section \<open>A reading of zero\<close>

lemma heartRate_nullified:
  "heartRate (nullified d) = (if heartRate d = Some 0 then None else heartRate d)"
  by (simp add: nullified_def)

lemma intensities_nullified: "intensities (map nullified xs) M = intensities xs M"
  by (simp add: intensities_def heartRate_nullified split: option.splits)

lemma tallyZone_nullified: "tallyZone z tiz (nullified d) = tallyZone z tiz d"
  by (simp add: tallyZone_def heartRate_nullified split: option.splits)

lemma sustainedStep_nullified: "sustainedStep lo hi st (nullified d) = sustainedStep lo hi st d"
  by (simp add: sustainedStep_def heartRate_nullified split: option.splits prod.splits)

lemma transitionStep_nullified: "transitionStep z st (nullified d) = transitionStep z st d"
  by (simp add: transitionStep_def heartRate_nullified split: option.splits prod.splits)

lemma foldl_map_step:
  assumes "\<And>a x. step a (g x) = step a x"
  shows "foldl step a (map g xs) = foldl step a xs"
  by (induction xs arbitrary: a) (simp_all add: assms)

lemma zoneCounts_nullified: "zoneCounts (map nullified xs) M = zoneCounts xs M"
  unfolding zoneCounts_def by (rule foldl_map_step) (rule tallyZone_nullified)

lemma spike_nullified:
  "(case heartRate (nullified d) of None \<Rightarrow> False | Some hr \<Rightarrow> hr \<noteq> 0 \<and> hr > t) =
   (case heartRate d of None \<Rightarrow> False | Some hr \<Rightarrow> hr \<noteq> 0 \<and> hr > t)"
  by (simp add: heartRate_nullified split: option.splits)

lemma peakSpikesOf_nullified: "peakSpikesOf (map nullified xs) M = peakSpikesOf xs M"
  by (simp add: peakSpikesOf_def Let_def filter_map comp_def spike_nullified)

lemma sustainedAerobicOf_nullified:
  "sustainedAerobicOf (map nullified xs) M = sustainedAerobicOf xs M"
proof -
  have "foldl (sustainedStep lo hi) a (map nullified xs) = foldl (sustainedStep lo hi) a xs"
    for lo hi a
    by (rule foldl_map_step) (rule sustainedStep_nullified)
  then show ?thesis by (simp add: sustainedAerobicOf_def)
qed

lemma zoneTransitionsOf_nullified:
  "zoneTransitionsOf (map nullified xs) M = zoneTransitionsOf xs M"
proof -
  have "foldl (transitionStep z) a (map nullified xs) = foldl (transitionStep z) a xs" for z a
    by (rule foldl_map_step) (rule transitionStep_nullified)
  then show ?thesis by (simp add: zoneTransitionsOf_def)
qed

lemma validHRs_nullified:
  "validHRs (map nullified xs) = filter (\<lambda>hr. hr \<noteq> 0) (validHRs xs)"
  by (induction xs) (simp_all add: validHRs_Cons heartRate_nullified split: option.splits)

lemma zero_in_validHRs:
  assumes "d \<in> set xs" "heartRate d = Some 0"
  shows "0 \<in> set (validHRs xs)"
  using assms by (induction xs) (auto simp: validHRs_Cons split: option.splits)

lemma intensity_of_zero:
  assumes "i < length xs" "heartRate (xs ! i) = Some 0"
  shows "intensities xs M ! i = Fin 0"
  using assms by (simp add: intensities_def)


lemma result_fields:
  assumes "xs \<noteq> []"
  shows "averageIntensity (calculateWorkoutQuality xs M D T) =
           Math_round (foldl (+) (Fin 0) (intensities xs M) / numn (length xs))"
    and "maxIntensity (calculateWorkoutQuality xs M D T) = Math_max (intensities xs M)"
    and "timeInZones (calculateWorkoutQuality xs M D T) =
           toPercent (length xs) (zoneCounts xs M)"
    and "workoutSpecific (calculateWorkoutQuality xs M D T) =
           Some \<lparr>hrVariability = hrVariabilityOf (validHRs xs),
                 peakSpikes = Some (peakSpikesOf xs M),
                 recoveryEfficiency = None,
                 sustainedAerobic = Some (sustainedAerobicOf xs M),
                 zoneTransitions = Some (zoneTransitionsOf xs M)\<rparr>"
  using assms by (simp_all add: calculateWorkoutQuality_def Let_def intensities_def)

text \<open>
  Claim C10. In a non-empty sample sequence with a sample whose reading is exactly
  \<open>0\<close>, the aggregator treats every such sample as it treats a \<^verbatim>\<open>null\<close> reading:
  replacing the readings \<open>0\<close> by \<^verbatim>\<open>null\<close> changes neither the intensity series (the
  sample contributes \<open>0\<close> there), nor the zone counts, the peak spikes, the sustained
  aerobic run or the zone transitions, and so neither the average and peak intensity nor
  the zone percentages of the result. The valid readings, from which the variability is
  computed, do contain the \<open>0\<close>; they lose it when the reading is replaced.
\<close>

theorem zero_reading_like_null:
  assumes "d \<in> set xs" "heartRate d = Some 0"
  shows "intensities xs M = intensities (map nullified xs) M
    \<and> (\<forall>i<length xs. heartRate (xs ! i) = Some 0 \<longrightarrow> intensities xs M ! i = Fin 0)
    \<and> zoneCounts xs M = zoneCounts (map nullified xs) M
    \<and> peakSpikesOf xs M = peakSpikesOf (map nullified xs) M
    \<and> sustainedAerobicOf xs M = sustainedAerobicOf (map nullified xs) M
    \<and> zoneTransitionsOf xs M = zoneTransitionsOf (map nullified xs) M
    \<and> averageIntensity (calculateWorkoutQuality xs M D T) =
        averageIntensity (calculateWorkoutQuality (map nullified xs) M D T)
    \<and> maxIntensity (calculateWorkoutQuality xs M D T) =
        maxIntensity (calculateWorkoutQuality (map nullified xs) M D T)
    \<and> timeInZones (calculateWorkoutQuality xs M D T) =
        timeInZones (calculateWorkoutQuality (map nullified xs) M D T)
    \<and> map_option peakSpikes (workoutSpecific (calculateWorkoutQuality xs M D T)) =
        map_option peakSpikes
          (workoutSpecific (calculateWorkoutQuality (map nullified xs) M D T))
    \<and> map_option sustainedAerobic (workoutSpecific (calculateWorkoutQuality xs M D T)) =
        map_option sustainedAerobic
          (workoutSpecific (calculateWorkoutQuality (map nullified xs) M D T))
    \<and> map_option zoneTransitions (workoutSpecific (calculateWorkoutQuality xs M D T)) =
        map_option zoneTransitions
          (workoutSpecific (calculateWorkoutQuality (map nullified xs) M D T))
    \<and> 0 \<in> set (validHRs xs)
    \<and> validHRs (map nullified xs) = filter (\<lambda>hr. hr \<noteq> 0) (validHRs xs)
    \<and> map_option hrVariability (workoutSpecific (calculateWorkoutQuality xs M D T)) =
        Some (hrVariabilityOf (validHRs xs))"
proof -
  have ne: "xs \<noteq> []" "map nullified xs \<noteq> []" using assms(1) by auto
  note f = result_fields [OF ne(1)] result_fields [OF ne(2)]
  show ?thesis
    by (simp add: f intensities_nullified zoneCounts_nullified peakSpikesOf_nullified
        sustainedAerobicOf_nullified zoneTransitionsOf_nullified validHRs_nullified
        zero_in_validHRs [OF assms] intensity_of_zero)
qed

theorem zero_reading_like_null_witness:
  "\<lparr>heartRate = Some 0, timestamp = 0\<rparr>
      \<in> set [\<lparr>heartRate = Some 0, timestamp = 0\<rparr>, \<lparr>heartRate = Some 4, timestamp = 1\<rparr>]
   \<and> heartRate \<lparr>heartRate = Some 0, timestamp = 0\<rparr> = Some 0
   \<and> validHRs [\<lparr>heartRate = Some 0, timestamp = 0\<rparr>, \<lparr>heartRate = Some 4, timestamp = 1\<rparr>]
       = [0, 4]
   \<and> map_option hrVariability (workoutSpecific (calculateWorkoutQuality
        [\<lparr>heartRate = Some 0, timestamp = 0\<rparr>, \<lparr>heartRate = Some 4, timestamp = 1\<rparr>]
        200 60 Weightlifting)) = Some (Some 2)
   \<and> map_option hrVariability (workoutSpecific (calculateWorkoutQuality
        [\<lparr>heartRate = None, timestamp = 0\<rparr>, \<lparr>heartRate = Some 4, timestamp = 1\<rparr>]
        200 60 Weightlifting)) = Some None
   \<and> timeInZones (calculateWorkoutQuality
        [\<lparr>heartRate = Some 0, timestamp = 0\<rparr>, \<lparr>heartRate = Some 4, timestamp = 1\<rparr>]
        200 60 Weightlifting) =
      timeInZones (calculateWorkoutQuality
        [\<lparr>heartRate = None, timestamp = 0\<rparr>, \<lparr>heartRate = Some 4, timestamp = 1\<rparr>]
        200 60 Weightlifting)
   \<and> intensities
        [\<lparr>heartRate = Some 0, timestamp = 0\<rparr>, \<lparr>heartRate = Some 4, timestamp = 1\<rparr>] 200
       = intensities
        [\<lparr>heartRate = None, timestamp = 0\<rparr>, \<lparr>heartRate = Some 4, timestamp = 1\<rparr>] 200"
proof -
  define xs where
    "xs = [\<lparr>heartRate = Some 0, timestamp = 0\<rparr>, \<lparr>heartRate = Some 4, timestamp = 1\<rparr>]"
  have n: "map nullified xs =
      [\<lparr>heartRate = None, timestamp = 0\<rparr>, \<lparr>heartRate = Some 4, timestamp = 1\<rparr>]"
    by (simp add: xs_def nullified_def)
  have v: "validHRs xs = [0, 4]" "hrVariabilityOf [0, 4] = Some 2" "hrVariabilityOf [4] = None"
    unfolding xs_def by code_simp+
  have m: "\<lparr>heartRate = Some 0, timestamp = 0\<rparr> \<in> set xs"
    "heartRate \<lparr>heartRate = Some 0, timestamp = 0\<rparr> = Some 0"
    by (simp_all add: xs_def)
  have ne: "map nullified xs \<noteq> []" by (simp add: xs_def)
  note t = zero_reading_like_null [OF m, of 200 60 Weightlifting]
  from t m v show ?thesis
    unfolding n result_fields(4) [OF ne [unfolded n]] by (simp add: xs_def)
qed

section \<open>Zone percentages\<close>













end
